theory Spec2Isabelle
  imports Main
begin

section \<open>Python strings\<close>

text \<open>
  A Python \<open>str\<close> is a sequence of Unicode code points and \<open>len\<close> counts code points, so a
  \<open>str\<close> is modelled as a list of code points. \<open>lit\<close> turns an ASCII literal into such a list.
\<close>

type_synonym str = "nat list"

definition code_point :: "char \<Rightarrow> nat" where
  "code_point c = of_char c"

definition lit :: "string \<Rightarrow> str" where
  "lit s = map code_point s"

text \<open>Truthiness of an \<open>Optional[str]\<close>: \<open>None\<close> and the empty string are falsy.\<close>

fun truthy :: "str option \<Rightarrow> bool" where
  "truthy None = False"
| "truthy (Some s) = (s \<noteq> [])"

text \<open>
  The characters that \<open>\<^verbatim>\<open>\s\<close>\<close> matches in a \<open>str\<close> pattern (CPython's
  \<open>Py_UNICODE_ISSPACE\<close>): tab to carriage return, the separators U+001C to U+001F, space,
  U+0085, U+00A0, U+1680, U+2000 to U+200A, U+2028, U+2029, U+202F, U+205F and U+3000.
\<close>

definition is_space :: "nat \<Rightarrow> bool" where
  "is_space c =
     ((9 \<le> c \<and> c \<le> 13) \<or> (28 \<le> c \<and> c \<le> 32) \<or> c = 133 \<or> c = 160 \<or> c = 5760 \<or>
      (8192 \<le> c \<and> c \<le> 8202) \<or> c = 8232 \<or> c = 8233 \<or> c = 8239 \<or> c = 8287 \<or> c = 12288)"

fun strip_prefix :: "str \<Rightarrow> str \<Rightarrow> str option" where
  "strip_prefix [] s = Some s"
| "strip_prefix (p # ps) [] = None"
| "strip_prefix (p # ps) (c # cs) = (if p = c then strip_prefix ps cs else None)"

fun first_some :: "('a \<Rightarrow> 'b option) \<Rightarrow> 'a list \<Rightarrow> 'b option" where
  "first_some f [] = None"
| "first_some f (x # xs) = (case f x of Some y \<Rightarrow> Some y | None \<Rightarrow> first_some f xs)"

section \<open>The paste link pattern\<close>

text \<open>
  \<^verbatim>\<open>PASTE_REGEX = re.compile(r"(https?:\/\/)?paste\.(disnake|nextcord)\.dev\/\S+")\<close>

  The backtracking matcher is written out part by part. Each function takes the text at the
  current position and returns the text matched from there on, or \<open>None\<close>. Alternatives
  are tried in the order of the pattern: the optional group is greedy (with \<open>https://\<close>, with
  \<open>http://\<close>, then without), \<open>disnake\<close> comes before \<open>nextcord\<close>, and the final greedy
  \<open>\<^verbatim>\<open>\S+\<close>\<close> takes the longest run of non-space characters, which must not be empty.
\<close>

definition scheme_alternatives :: "str list" where
  "scheme_alternatives = [lit ''https://'', lit ''http://'', []]"

definition host_alternatives :: "str list" where
  "host_alternatives = [lit ''disnake'', lit ''nextcord'']"

definition match_tail :: "str \<Rightarrow> str option" where
  "match_tail s =
     (case strip_prefix (lit ''.dev/'') s of
        None \<Rightarrow> None
      | Some r \<Rightarrow>
          (let w = takeWhile (\<lambda>c. \<not> is_space c) r
           in if w = [] then None else Some (lit ''.dev/'' @ w)))"

definition match_host :: "str \<Rightarrow> str option" where
  "match_host s =
     first_some (\<lambda>h. case strip_prefix h s of
                        None \<Rightarrow> None
                      | Some r \<Rightarrow> map_option (\<lambda>t. h @ t) (match_tail r))
       host_alternatives"

definition match_body :: "str \<Rightarrow> str option" where
  "match_body s =
     (case strip_prefix (lit ''paste.'') s of
        None \<Rightarrow> None
      | Some r \<Rightarrow> map_option (\<lambda>t. lit ''paste.'' @ t) (match_host r))"

definition match_here :: "str \<Rightarrow> str option" where
  "match_here s =
     first_some (\<lambda>p. case strip_prefix p s of
                        None \<Rightarrow> None
                      | Some r \<Rightarrow> map_option (\<lambda>t. p @ t) (match_body r))
       scheme_alternatives"

text \<open>
  \<open>PASTE_REGEX.search(content)\<close> followed by \<open>match.group()\<close>: the match at the leftmost
  position where the pattern matches, as the matched text.
\<close>

fun PASTE_REGEX_search :: "str \<Rightarrow> str option" where
  "PASTE_REGEX_search [] = None"
| "PASTE_REGEX_search (c # cs) =
     (case match_here (c # cs) of
        Some m \<Rightarrow> Some m
      | None \<Rightarrow> PASTE_REGEX_search cs)"

text \<open>
  The language of the pattern, stated on its own: an optional scheme, \<open>paste.\<close>, one of the
  two hosts, \<open>.dev/\<close> and a non-empty run of non-space characters. A message contains a
  paste link when some substring of it is in that language.
\<close>

definition paste_url :: "str \<Rightarrow> bool" where
  "paste_url m \<longleftrightarrow>
     (\<exists>p h w. p \<in> set scheme_alternatives \<and> h \<in> set host_alternatives \<and>
        w \<noteq> [] \<and> list_all (\<lambda>c. \<not> is_space c) w \<and>
        m = p @ lit ''paste.'' @ h @ lit ''.dev/'' @ w)"

definition contains_paste_url :: "str \<Rightarrow> bool" where
  "contains_paste_url content \<longleftrightarrow> (\<exists>pre m post. content = pre @ m @ post \<and> paste_url m)"

section \<open>The environment of the cog\<close>

text \<open>
  Everything \<open>CodeButtons\<close> reaches outside itself is a field of the environment:
  \<^item> \<open>snekbox\<close> is \<open>self.bot.get_cog("Snekbox")\<close>; a registered cog is given by its
    \<open>prepare_input(content, require_fenced=...)\<close>, which returns a string or \<open>None\<close>;
  \<^item> \<open>codeblock\<close> is \<open>self.bot.get_cog("Code Block")\<close>; a registered cog is given by
    its \<open>is_python_code(code)\<close>;
  \<^item> \<open>http_get\<close> is \<open>self.bot.http_session.get(url, timeout=AIOHTTP_TIMEOUT)\<close>: either
    the request fails (connection error, timeout) and aiohttp raises, or a response arrives
    with its status; the second component of a response is what \<open>await resp.text()\<close>
    does if it is called on it, returning the text or raising (the body cannot be read or
    decoded, or the timeout expires while it is read);
  \<^item> \<open>raw_paste_endpoint\<close> is \<open>Paste.raw_paste_endpoint.format(key=...)\<close>, a constant of
    \<open>monty.constants\<close>;
  \<^item> \<open>unquote_pct\<close> is \<open>urllib.parse.unquote\<close> on a string that contains a percent sign
    (percent-decoding, then UTF-8 decoding with replacement).
\<close>

datatype body_text = Text str | Unreadable

datatype http_outcome = Response nat body_text | Client_failure

record env =
  snekbox :: "(str \<Rightarrow> bool \<Rightarrow> str option) option"
  codeblock :: "(str \<Rightarrow> bool) option"
  http_get :: "str \<Rightarrow> http_outcome"
  raw_paste_endpoint :: "str \<Rightarrow> str"
  unquote_pct :: "str \<Rightarrow> str"

text \<open>The exceptions that can leave \<open>check_paste_link\<close>.\<close>

datatype error = KeyError str | IndexError | Client_error | Body_error

text \<open>
  The calls that a run makes, in order. Every function below takes the calls made so far and
  returns them extended.
\<close>

datatype call =
    Call_http_get str
  | Call_get_code str bool bool
  | Call_prepare_input str bool
  | Call_is_python_code str

section \<open>Query strings\<close>

text \<open>
  \<open>urllib.parse.urlparse(url, scheme="https").query\<close> as CPython computes it: a leading
  scheme (a non-empty run of scheme characters before the first colon) is removed, then a
  network location introduced by \<open>//\<close> (up to the first of \<open>/\<close>, \<open>?\<close>, \<open>#\<close>), then the
  fragment after the first \<open>#\<close>; the query is what follows the first \<open>?\<close> of the rest. The
  function is applied to matches of the pattern only: they hold no whitespace to strip, and
  their network location is empty or the literal host, so the \<open>ValueError\<close> cases of
  \<open>urlsplit\<close> do not arise.
\<close>

definition scheme_chars :: "str" where
  "scheme_chars = lit ''abcdefghijklmnopqrstuvwxyzABCDEFGHIJKLMNOPQRSTUVWXYZ0123456789+-.''"

definition split_first :: "nat \<Rightarrow> str \<Rightarrow> (str \<times> str) option" where
  "split_first c s =
     (if c \<in> set s
      then Some (takeWhile (\<lambda>x. x \<noteq> c) s, tl (dropWhile (\<lambda>x. x \<noteq> c) s))
      else None)"

definition urlparse_query :: "str \<Rightarrow> str" where
  "urlparse_query url0 =
     (let url1 = (case split_first (code_point CHR '':'') url0 of
                    None \<Rightarrow> url0
                  | Some (s, rest) \<Rightarrow>
                      if s \<noteq> [] \<and> list_all (\<lambda>c. c \<in> set scheme_chars) s then rest else url0);
          url2 = (if take 2 url1 = lit ''//''
                  then dropWhile (\<lambda>c. c \<notin> set (lit ''/?#'')) (drop 2 url1)
                  else url1);
          url3 = (case split_first (code_point CHR ''#'') url2 of
                    None \<Rightarrow> url2
                  | Some (u, fragment) \<Rightarrow> u)
      in case split_first (code_point CHR ''?'') url3 of
           None \<Rightarrow> []
         | Some (u, query) \<Rightarrow> query)"

text \<open>\<open>s.split(sep)\<close> for a one-character separator.\<close>

fun split_on :: "nat \<Rightarrow> str \<Rightarrow> str list" where
  "split_on sep [] = [[]]"
| "split_on sep (x # xs) =
     (if x = sep then [] # split_on sep xs
      else (case split_on sep xs of
              [] \<Rightarrow> [[x]]
            | y # ys \<Rightarrow> (x # y) # ys))"

definition replace_plus :: "str \<Rightarrow> str" where
  "replace_plus s = map (\<lambda>c. if c = code_point CHR ''+'' then code_point CHR '' '' else c) s"

text \<open>\<open>urllib.parse.unquote\<close>: a string without a percent sign is returned as it is.\<close>

definition unquote :: "env \<Rightarrow> str \<Rightarrow> str" where
  "unquote env s = (if code_point CHR ''%'' \<in> set s then unquote_pct env s else s)"

text \<open>
  \<open>urllib.parse.parse_qsl(qs)\<close> with its defaults (fields separated by \<open>&\<close>, blank values
  dropped, no strict parsing): empty fields, fields without \<open>=\<close> and fields with an empty
  value are skipped; in the others \<open>+\<close> becomes a space and name and value are unquoted.
\<close>

definition parse_field :: "env \<Rightarrow> str \<Rightarrow> (str \<times> str) list" where
  "parse_field env name_value =
     (if name_value = [] then []
      else (case split_first (code_point CHR ''='') name_value of
              None \<Rightarrow> []
            | Some (name, v) \<Rightarrow>
                if v = [] then []
                else [(unquote env (replace_plus name), unquote env (replace_plus v))]))"

definition parse_qsl :: "env \<Rightarrow> str \<Rightarrow> (str \<times> str) list" where
  "parse_qsl env qs = concat (map (parse_field env) (split_on (code_point CHR ''&'') qs))"

text \<open>\<open>urllib.parse.parse_qs(qs)\<close>: the dictionary from each name to the list of its values.\<close>

definition add_pair :: "(str \<rightharpoonup> str list) \<Rightarrow> str \<times> str \<Rightarrow> (str \<rightharpoonup> str list)" where
  "add_pair d nv =
     (case d (fst nv) of
        Some vs \<Rightarrow> d(fst nv \<mapsto> vs @ [snd nv])
      | None \<Rightarrow> d(fst nv \<mapsto> [snd nv]))"

definition parse_qs :: "env \<Rightarrow> str \<Rightarrow> (str \<rightharpoonup> str list)" where
  "parse_qs env qs = foldl add_pair Map.empty (parse_qsl env qs)"

section \<open>The cog\<close>

definition MAX_LEN :: nat where
  "MAX_LEN = 20000"

text \<open>
  \<open>CodeButtons.get_code\<close>. The walrus tests \<open>snekbox := self.get_snekbox()\<close> and
  \<open>codeblock := self.get_codeblock_cog()\<close> are the two \<open>case\<close>s on the registry;
  \<open>not code\<close> holds for \<open>None\<close> and for the empty string. The classifier is called only when
  \<open>check_is_python\<close> is set and the cog is registered (\<open>and\<close> short-circuits).
\<close>

definition get_code ::
  "env \<Rightarrow> str \<Rightarrow> bool \<Rightarrow> bool \<Rightarrow> call list \<Rightarrow> str option \<times> call list" where
  "get_code env content require_fenced check_is_python tr0 =
     (let tr1 = tr0 @ [Call_get_code content require_fenced check_is_python] in
      case snekbox env of
        None \<Rightarrow> (None, tr1)
      | Some prepare_input \<Rightarrow>
          (let tr2 = tr1 @ [Call_prepare_input content require_fenced] in
           case prepare_input content require_fenced of
             None \<Rightarrow> (None, tr2)
           | Some code \<Rightarrow>
               if code = [] then (None, tr2)
               else if check_is_python then
                 (case codeblock env of
                    None \<Rightarrow> (Some code, tr2)
                  | Some is_python_code \<Rightarrow>
                      if \<not> is_python_code code
                      then (None, tr2 @ [Call_is_python_code code])
                      else (Some code, tr2 @ [Call_is_python_code code]))
               else (Some code, tr2)))"

text \<open>
  \<open>CodeButtons.check_paste_link\<close>. \<open>query_strings["id"]\<close> raises \<open>KeyError\<close> when the
  query has no field named \<open>id\<close>; a failure of the request is raised through the
  \<open>async with\<close>; the body is read by \<open>resp.text()\<close> only when the status is 200, and a
  failure to read it is raised too. None of them is caught.
\<close>

definition check_paste_link ::
  "env \<Rightarrow> str \<Rightarrow> call list \<Rightarrow> (error + str option) \<times> call list" where
  "check_paste_link env content tr0 =
     (case PASTE_REGEX_search content of
        None \<Rightarrow> (Inr None, tr0)
      | Some m \<Rightarrow>
          (let query_strings = parse_qs env (urlparse_query m) in
           case query_strings (lit ''id'') of
             None \<Rightarrow> (Inl (KeyError (lit ''id'')), tr0)
           | Some [] \<Rightarrow> (Inl IndexError, tr0)
           | Some (ident # _) \<Rightarrow>
               (let url = raw_paste_endpoint env ident;
                    tr1 = tr0 @ [Call_http_get url] in
                case http_get env url of
                  Client_failure \<Rightarrow> (Inl Client_error, tr1)
                | Response status payload \<Rightarrow>
                    if status \<noteq> 200 then (Inr None, tr1)
                    else (case payload of
                            Unreadable \<Rightarrow> (Inl Body_error, tr1)
                          | Text body \<Rightarrow> (Inr (Some body), tr1)))))"

text \<open>
  \<open>CodeButtons.parse_code\<close>, returning the tuple \<open>(success, code, is_paste)\<close>. An exception
  of \<open>check_paste_link\<close> leaves \<open>parse_code\<close> as it is.
\<close>

type_synonym outcome = "bool \<times> str option \<times> bool option"

definition parse_code ::
  "env \<Rightarrow> str \<Rightarrow> bool \<Rightarrow> bool \<Rightarrow> call list \<Rightarrow> (error + outcome) \<times> call list" where
  "parse_code env content require_fenced check_is_python tr0 =
     (case check_paste_link env content tr0 of
        (Inl e, tr1) \<Rightarrow> (Inl e, tr1)
      | (Inr fetched, tr1) \<Rightarrow>
          (let (is_paste, code, tr2) =
                 (if truthy fetched then (True, fetched, tr1)
                  else (let (c, t) = get_code env content require_fenced check_is_python tr1
                        in (False, c, t)))
           in case code of
                None \<Rightarrow> (Inr (False, None, None), tr2)
              | Some c \<Rightarrow>
                  if c = [] \<or> length c > MAX_LEN then (Inr (False, None, None), tr2)
                  else (Inr (True, Some c, Some is_paste), tr2)))"

section \<open>The specification's components\<close>

text \<open>
  The Eligibility Filter as the specification words it: false if the code is nothing or
  empty, false if it is longer than the maximum, true otherwise.
\<close>

definition is_eligible :: "str option \<Rightarrow> nat \<Rightarrow> bool" where
  "is_eligible code max_length =
     (case code of
        None \<Rightarrow> False
      | Some c \<Rightarrow> if c = [] then False else if length c > max_length then False else True)"

text \<open>
  The fence marker of a fenced code block, three backticks, and the split of a text at the
  first occurrence of a marker.
\<close>

definition fence :: "str" where
  "fence = [96, 96, 96]"

fun find_sub :: "str \<Rightarrow> str \<Rightarrow> (str \<times> str) option" where
  "find_sub pat [] = (if pat = [] then Some ([], []) else None)"
| "find_sub pat (c # cs) =
     (case strip_prefix pat (c # cs) of
        Some r \<Rightarrow> Some ([], r)
      | None \<Rightarrow> map_option (\<lambda>(a, b). (c # a, b)) (find_sub pat cs))"

definition is_letter :: "nat \<Rightarrow> bool" where
  "is_letter c = ((65 \<le> c \<and> c \<le> 90) \<or> (97 \<le> c \<and> c \<le> 122))"

definition is_newline :: "nat \<Rightarrow> bool" where
  "is_newline c = (c = 10 \<or> c = 13)"

definition drop_language_tag :: "str \<Rightarrow> str" where
  "drop_language_tag inner =
     (case split_first 10 inner of
        None \<Rightarrow> inner
      | Some (tag, rest) \<Rightarrow> if tag \<noteq> [] \<and> list_all is_letter tag then rest else inner)"

definition trim_blank_lines :: "str \<Rightarrow> str" where
  "trim_blank_lines s = rev (dropWhile is_newline (rev (dropWhile is_newline s)))"

text \<open>
  Modelled from the spec: the fenced-region scan of the Inline Extractor, which is part of
  \<open>Snekbox.prepare_input\<close> (\<open>monty.exts.eval\<close>, not among the sources). A fenced region
  is delimited by an opening and a closing fence marker; the opening marker may be followed
  by a language tag (taken here to be the letters up to the end of its line); the inner
  content is returned without the markers and without leading and trailing blank lines.
\<close>

definition fenced_region :: "str \<Rightarrow> str option" where
  "fenced_region content =
     (case find_sub fence content of
        None \<Rightarrow> None
      | Some (before, after) \<Rightarrow>
          (case find_sub fence after of
             None \<Rightarrow> None
           | Some (inner, rest) \<Rightarrow> Some (trim_blank_lines (drop_language_tag inner))))"

text \<open>
  Modelled from the spec: \<open>Snekbox.prepare_input\<close> (\<open>monty.exts.eval\<close>, not among the
  sources), the spec's Inline Extractor \<open>extract_inline(text, require_fenced)\<close>. If a fenced
  region is found, its inner content is returned. If none is found and \<open>require_fenced\<close> is
  false, the whole text is returned as it is, provided it is not empty after trimming. If
  none is found and \<open>require_fenced\<close> is true, nothing is returned.
\<close>

definition prepare_input :: "str \<Rightarrow> bool \<Rightarrow> str option" where
  "prepare_input content require_fenced =
     (case fenced_region content of
        Some inner \<Rightarrow> Some inner
      | None \<Rightarrow>
          if require_fenced then None
          else if list_ex (\<lambda>c. \<not> is_space c) content then Some content
          else None)"

section \<open>Example environments\<close>

text \<open>
  Concrete collaborators for the examples. The endpoint stands for the constant of
  \<open>monty.constants\<close>; no example holds a percent sign, so the stand-in for percent-decoding
  is never applied.
\<close>

definition example_endpoint :: "str \<Rightarrow> str" where
  "example_endpoint key = lit ''https://paste.disnake.dev/raw/'' @ key"

definition no_percent :: "str \<Rightarrow> str" where
  "no_percent s = s"

definition http_not_found :: "str \<Rightarrow> http_outcome" where
  "http_not_found url = Response 404 (Text (lit ''Not Found''))"

definition http_empty_body :: "str \<Rightarrow> http_outcome" where
  "http_empty_body url = Response 200 (Text [])"

definition http_paste_abcd :: "str \<Rightarrow> http_outcome" where
  "http_paste_abcd url =
     (if url = example_endpoint (lit ''abcd'') then Response 200 (Text (lit ''x = 1''))
      else Response 404 (Text (lit ''Not Found'')))"

definition http_long_paste :: "str \<Rightarrow> http_outcome" where
  "http_long_paste url = Response 200 (Text (replicate 20000 120))"

definition http_unreachable :: "str \<Rightarrow> http_outcome" where
  "http_unreachable url = Client_failure"

definition http_unreadable_body :: "str \<Rightarrow> http_outcome" where
  "http_unreadable_body url = Response 200 Unreadable"

definition accept_all :: "str \<Rightarrow> bool" where
  "accept_all code = True"

definition example_env :: "(str \<Rightarrow> http_outcome) \<Rightarrow> env" where
  "example_env http =
     \<lparr>snekbox = Some prepare_input, codeblock = Some accept_all, http_get = http,
      raw_paste_endpoint = example_endpoint, unquote_pct = no_percent\<rparr>"

definition env_without_snekbox :: "(str \<Rightarrow> http_outcome) \<Rightarrow> env" where
  "env_without_snekbox http =
     \<lparr>snekbox = None, codeblock = Some accept_all, http_get = http,
      raw_paste_endpoint = example_endpoint, unquote_pct = no_percent\<rparr>"

definition env_without_codeblock :: "(str \<Rightarrow> http_outcome) \<Rightarrow> env" where
  "env_without_codeblock http =
     \<lparr>snekbox = Some prepare_input, codeblock = None, http_get = http,
      raw_paste_endpoint = example_endpoint, unquote_pct = no_percent\<rparr>"

section \<open>A world that changes between calls\<close>

text \<open>
  \<open>CodeButtons\<close> keeps no state between two calls of \<open>parse_code\<close>, but what it consults
  can change: cogs are loaded and unloaded, a paste expires or is edited, a classifier
  learns. A world gives, for every state, the collaborators as they answer in that state,
  and for every call the state that the call leaves behind. The three functions are written
  once more over a world: each collaborator is taken from the state in which it is called.
\<close>

record 'w world =
  env_of :: "'w \<Rightarrow> env"
  effect :: "call \<Rightarrow> 'w \<Rightarrow> 'w"

definition get_code_in ::
  "'w world \<Rightarrow> str \<Rightarrow> bool \<Rightarrow> bool \<Rightarrow> 'w \<Rightarrow> str option \<times> 'w" where
  "get_code_in W content require_fenced check_is_python w0 =
     (let w1 = effect W (Call_get_code content require_fenced check_is_python) w0 in
      case snekbox (env_of W w1) of
        None \<Rightarrow> (None, w1)
      | Some extract \<Rightarrow>
          (let extracted = extract content require_fenced;
               w2 = effect W (Call_prepare_input content require_fenced) w1 in
           case extracted of
             None \<Rightarrow> (None, w2)
           | Some code \<Rightarrow>
               if code = [] then (None, w2)
               else if check_is_python then
                 (case codeblock (env_of W w2) of
                    None \<Rightarrow> (Some code, w2)
                  | Some is_python_code \<Rightarrow>
                      (let is_python = is_python_code code;
                           w3 = effect W (Call_is_python_code code) w2 in
                       if \<not> is_python then (None, w3) else (Some code, w3)))
               else (Some code, w2)))"

definition check_paste_link_in ::
  "'w world \<Rightarrow> str \<Rightarrow> 'w \<Rightarrow> (error + str option) \<times> 'w" where
  "check_paste_link_in W content w0 =
     (case PASTE_REGEX_search content of
        None \<Rightarrow> (Inr None, w0)
      | Some m \<Rightarrow>
          (let query_strings = parse_qs (env_of W w0) (urlparse_query m) in
           case query_strings (lit ''id'') of
             None \<Rightarrow> (Inl (KeyError (lit ''id'')), w0)
           | Some [] \<Rightarrow> (Inl IndexError, w0)
           | Some (ident # _) \<Rightarrow>
               (let url = raw_paste_endpoint (env_of W w0) ident;
                    resp = http_get (env_of W w0) url;
                    w1 = effect W (Call_http_get url) w0 in
                case resp of
                  Client_failure \<Rightarrow> (Inl Client_error, w1)
                | Response status payload \<Rightarrow>
                    if status \<noteq> 200 then (Inr None, w1)
                    else (case payload of
                            Unreadable \<Rightarrow> (Inl Body_error, w1)
                          | Text body \<Rightarrow> (Inr (Some body), w1)))))"

definition parse_code_in ::
  "'w world \<Rightarrow> str \<Rightarrow> bool \<Rightarrow> bool \<Rightarrow> 'w \<Rightarrow> (error + outcome) \<times> 'w" where
  "parse_code_in W content require_fenced check_is_python w0 =
     (case check_paste_link_in W content w0 of
        (Inl e, w1) \<Rightarrow> (Inl e, w1)
      | (Inr fetched, w1) \<Rightarrow>
          (let (is_paste, code, w2) =
                 (if truthy fetched then (True, fetched, w1)
                  else (let (c, w) = get_code_in W content require_fenced check_is_python w1
                        in (False, c, w)))
           in case code of
                None \<Rightarrow> (Inr (False, None, None), w2)
              | Some c \<Rightarrow>
                  if c = [] \<or> length c > MAX_LEN then (Inr (False, None, None), w2)
                  else (Inr (True, Some c, Some is_paste), w2)))"

text \<open>
  The collaborators of a world behave as fixed functions when no call changes how they
  answer.
\<close>

definition stable :: "'w world \<Rightarrow> bool" where
  "stable W \<longleftrightarrow> (\<forall>c w. env_of W (effect W c w) = env_of W w)"


fun count_fetch :: "call \<Rightarrow> nat \<Rightarrow> nat" where
  "count_fetch (Call_http_get url) n = Suc n"
| "count_fetch c n = n"

definition expiring_paste :: "nat world" where
  "expiring_paste =
     \<lparr>env_of = (\<lambda>n. example_env (if n = 0 then http_paste_abcd else http_not_found)),
      effect = count_fetch\<rparr>"

section \<open>The search finds exactly the paste links\<close>

lemma strip_prefix_iff: "strip_prefix p s = Some r \<longleftrightarrow> s = p @ r"
  by (induction p s rule: strip_prefix.induct) auto

lemma strip_prefix_append [simp]: "strip_prefix p (p @ r) = Some r"
  by (simp add: strip_prefix_iff)

lemma first_some_Some: "first_some f xs = Some y \<Longrightarrow> \<exists>x\<in>set xs. f x = Some y"
  by (induction xs) (auto split: option.splits)

lemma match_tail_sound:
  assumes "match_tail s = Some t"
  shows "\<exists>w post. t = lit ''.dev/'' @ w \<and> s = t @ post \<and> w \<noteq> [] \<and> list_all (\<lambda>c. \<not> is_space c) w"
proof -
  from assms obtain r where r: "s = lit ''.dev/'' @ r"
    and t: "t = lit ''.dev/'' @ takeWhile (\<lambda>c. \<not> is_space c) r"
    and ne: "takeWhile (\<lambda>c. \<not> is_space c) r \<noteq> []"
    by (auto simp: match_tail_def Let_def strip_prefix_iff split: option.splits if_splits)
  have "s = t @ dropWhile (\<lambda>c. \<not> is_space c) r"
    using r t by simp
  moreover have "list_all (\<lambda>c. \<not> is_space c) (takeWhile (\<lambda>c. \<not> is_space c) r)"
    by (auto simp: list_all_iff dest: set_takeWhileD)
  ultimately show ?thesis using t ne by blast
qed

lemma match_host_sound:
  assumes "match_host s = Some t"
  shows "\<exists>h w post. h \<in> set host_alternatives \<and> t = h @ lit ''.dev/'' @ w \<and> s = t @ post \<and>
           w \<noteq> [] \<and> list_all (\<lambda>c. \<not> is_space c) w"
proof -
  from assms obtain h r u where h: "h \<in> set host_alternatives" and r: "s = h @ r"
    and u: "match_tail r = Some u" and t: "t = h @ u"
    unfolding match_host_def
    by (auto dest!: first_some_Some simp: strip_prefix_iff split: option.splits)
  from match_tail_sound [OF u] obtain w post where
    "u = lit ''.dev/'' @ w" "r = u @ post" "w \<noteq> []" "list_all (\<lambda>c. \<not> is_space c) w"
    by blast
  with h r t show ?thesis by auto
qed

lemma match_body_sound:
  assumes "match_body s = Some t"
  shows "\<exists>h w post. h \<in> set host_alternatives \<and> t = lit ''paste.'' @ h @ lit ''.dev/'' @ w \<and>
           s = t @ post \<and> w \<noteq> [] \<and> list_all (\<lambda>c. \<not> is_space c) w"
proof -
  from assms obtain r u where r: "s = lit ''paste.'' @ r"
    and u: "match_host r = Some u" and t: "t = lit ''paste.'' @ u"
    by (auto simp: match_body_def strip_prefix_iff split: option.splits)
  from match_host_sound [OF u] obtain h w post where
    "h \<in> set host_alternatives" "u = h @ lit ''.dev/'' @ w" "r = u @ post" "w \<noteq> []"
    "list_all (\<lambda>c. \<not> is_space c) w"
    by blast
  with r t show ?thesis by auto
qed

lemma match_here_sound:
  assumes "match_here s = Some m"
  shows "\<exists>post. s = m @ post \<and> paste_url m"
proof -
  from assms obtain p r u where p: "p \<in> set scheme_alternatives" and r: "s = p @ r"
    and u: "match_body r = Some u" and m: "m = p @ u"
    unfolding match_here_def
    by (auto dest!: first_some_Some simp: strip_prefix_iff split: option.splits)
  from match_body_sound [OF u] obtain h w post where
    "h \<in> set host_alternatives" "u = lit ''paste.'' @ h @ lit ''.dev/'' @ w" "r = u @ post"
    "w \<noteq> []" "list_all (\<lambda>c. \<not> is_space c) w"
    by blast
  with p r m show ?thesis unfolding paste_url_def by auto
qed

lemma match_tail_complete:
  assumes "w \<noteq> []" "list_all (\<lambda>c. \<not> is_space c) w"
  shows "match_tail (lit ''.dev/'' @ w @ post) \<noteq> None"
proof -
  have "takeWhile (\<lambda>c. \<not> is_space c) (w @ post) = w @ takeWhile (\<lambda>c. \<not> is_space c) post"
    using assms(2) by (simp add: list_all_iff takeWhile_append2)
  with assms(1) show ?thesis by (simp add: match_tail_def Let_def)
qed

lemma match_host_complete:
  assumes "h \<in> set host_alternatives" "w \<noteq> []" "list_all (\<lambda>c. \<not> is_space c) w"
  shows "match_host (h @ lit ''.dev/'' @ w @ post) \<noteq> None"
proof -
  from match_tail_complete [OF assms(2,3)] obtain t where
    t: "match_tail (lit ''.dev/'' @ w @ post) = Some t" by blast
  from assms(1) consider "h = lit ''disnake''" | "h = lit ''nextcord''"
    by (auto simp: host_alternatives_def)
  then show ?thesis
  proof cases
    case 1
    then show ?thesis using t by (simp add: match_host_def host_alternatives_def)
  next
    case 2
    have "strip_prefix (lit ''disnake'') (lit ''nextcord'' @ lit ''.dev/'' @ w @ post) = None"
      by (simp add: lit_def code_point_def)
    with 2 show ?thesis using t by (simp add: match_host_def host_alternatives_def)
  qed
qed

lemma match_body_complete:
  assumes "h \<in> set host_alternatives" "w \<noteq> []" "list_all (\<lambda>c. \<not> is_space c) w"
  shows "match_body (lit ''paste.'' @ h @ lit ''.dev/'' @ w @ post) \<noteq> None"
  using match_host_complete [OF assms, of post] by (auto simp: match_body_def)

lemma match_here_complete:
  assumes "paste_url m"
  shows "match_here (m @ post) \<noteq> None"
proof -
  from assms obtain p h w where p: "p \<in> set scheme_alternatives"
    and h: "h \<in> set host_alternatives" and w: "w \<noteq> []" "list_all (\<lambda>c. \<not> is_space c) w"
    and m: "m = p @ lit ''paste.'' @ h @ lit ''.dev/'' @ w"
    unfolding paste_url_def by blast
  define b where "b = lit ''paste.'' @ h @ lit ''.dev/'' @ w @ post"
  from match_body_complete [OF h w, of post] obtain t where t: "match_body b = Some t"
    unfolding b_def by blast
  have mb: "m @ post = p @ b" using m by (simp add: b_def)
  have b_paste: "\<exists>r. b = lit ''paste.'' @ r" by (auto simp: b_def)
  from p consider "p = lit ''https://''" | "p = lit ''http://''" | "p = []"
    by (auto simp: scheme_alternatives_def)
  then show ?thesis
  proof cases
    case 1
    then show ?thesis using t mb by (simp add: match_here_def scheme_alternatives_def)
  next
    case 2
    from b_paste obtain r where "b = lit ''paste.'' @ r" by blast
    then have "strip_prefix (lit ''https://'') (lit ''http://'' @ b) = None"
      by (simp add: lit_def code_point_def)
    with 2 show ?thesis using t mb by (simp add: match_here_def scheme_alternatives_def)
  next
    case 3
    from b_paste obtain r where "b = lit ''paste.'' @ r" by blast
    then have "strip_prefix (lit ''https://'') b = None" "strip_prefix (lit ''http://'') b = None"
      by (simp_all add: lit_def code_point_def)
    with 3 show ?thesis using t mb by (simp add: match_here_def scheme_alternatives_def)
  qed
qed

lemma paste_url_not_Nil: "paste_url m \<Longrightarrow> m \<noteq> []"
  by (auto simp: paste_url_def lit_def)

lemma search_sound: "PASTE_REGEX_search s = Some m \<Longrightarrow> \<exists>pre post. s = pre @ m @ post \<and> paste_url m"
proof (induction s)
  case Nil
  then show ?case by simp
next
  case (Cons c cs)
  show ?case
  proof (cases "match_here (c # cs)")
    case None
    with Cons.prems have "PASTE_REGEX_search cs = Some m" by simp
    from Cons.IH [OF this] obtain pre post where "cs = pre @ m @ post" "paste_url m" by blast
    then have "c # cs = (c # pre) @ m @ post \<and> paste_url m" by simp
    then show ?thesis by blast
  next
    case (Some m')
    with Cons.prems have "m' = m" by simp
    with Some match_here_sound obtain post where "c # cs = m @ post" "paste_url m" by blast
    then have "c # cs = [] @ m @ post \<and> paste_url m" by simp
    then show ?thesis by blast
  qed
qed

lemma search_complete: "paste_url m \<Longrightarrow> PASTE_REGEX_search (pre @ m @ post) \<noteq> None"
proof (induction pre)
  case Nil
  from paste_url_not_Nil [OF Nil] obtain c cs where "m @ post = c # cs"
    by (cases m) auto
  moreover from match_here_complete [OF Nil] have "match_here (m @ post) \<noteq> None" .
  ultimately show ?case by auto
next
  case (Cons a pre)
  then show ?case by (auto split: option.splits)
qed

lemma search_None_iff: "PASTE_REGEX_search s = None \<longleftrightarrow> \<not> contains_paste_url s"
proof
  assume "PASTE_REGEX_search s = None"
  then show "\<not> contains_paste_url s"
    unfolding contains_paste_url_def using search_complete by blast
next
  assume "\<not> contains_paste_url s"
  then show "PASTE_REGEX_search s = None"
    unfolding contains_paste_url_def using search_sound by (cases "PASTE_REGEX_search s") blast+
qed

section \<open>Evaluation and composition\<close>

lemmas eval_pattern = lit_def code_point_def match_here_def match_body_def match_host_def
  match_tail_def scheme_alternatives_def host_alternatives_def is_space_def

lemmas eval_query = urlparse_query_def split_first_def scheme_chars_def parse_qs_def
  parse_qsl_def parse_field_def add_pair_def unquote_def replace_plus_def

lemmas eval_extract = fenced_region_def fence_def prepare_input_def drop_language_tag_def
  trim_blank_lines_def is_letter_def is_newline_def

lemmas eval_env = example_env_def env_without_snekbox_def env_without_codeblock_def
  example_endpoint_def no_percent_def http_not_found_def http_empty_body_def
  http_paste_abcd_def http_long_paste_def http_unreachable_def http_unreadable_body_def
  accept_all_def

subsection \<open>The value lists of a parsed query are never empty\<close>

lemma add_pair_nonempty:
  assumes "\<forall>n vs. d n = Some vs \<longrightarrow> vs \<noteq> []"
  shows "\<forall>n vs. add_pair d nv n = Some vs \<longrightarrow> vs \<noteq> []"
  using assms by (auto simp: add_pair_def split: option.splits if_splits)

lemma foldl_add_pair_nonempty:
  "\<forall>n vs. d n = Some vs \<longrightarrow> vs \<noteq> [] \<Longrightarrow>
   \<forall>n vs. foldl add_pair d nvs n = Some vs \<longrightarrow> vs \<noteq> []"
proof (induction nvs arbitrary: d)
  case Nil
  then show ?case by simp
next
  case (Cons nv nvs)
  from Cons.IH [OF add_pair_nonempty [OF Cons.prems, of nv]] show ?case by simp
qed

lemma parse_qs_nonempty: "parse_qs env qs name = Some vs \<Longrightarrow> vs \<noteq> []"
  using foldl_add_pair_nonempty [of Map.empty "parse_qsl env qs"]
  by (simp add: parse_qs_def)

text \<open>So the index \<open>[0]\<close> of \<open>check_paste_link\<close> never raises.\<close>

lemma check_paste_link_no_IndexError:
  "fst (check_paste_link env content tr0) \<noteq> Inl IndexError"
  by (auto simp: check_paste_link_def Let_def dest: parse_qs_nonempty
           split: option.splits list.splits http_outcome.splits body_text.splits)

subsection \<open>How the three functions compose\<close>

lemma get_code_calls:
  "\<exists>cs. snd (get_code env content rf cp tr0) = tr0 @ Call_get_code content rf cp # cs"
  by (auto simp: get_code_def Let_def split: option.splits)

lemma get_code_without_snekbox:
  "snekbox env = None \<Longrightarrow>
   get_code env content rf cp tr0 = (None, tr0 @ [Call_get_code content rf cp])"
  by (simp add: get_code_def)

lemma check_paste_link_no_match:
  "PASTE_REGEX_search content = None \<Longrightarrow> check_paste_link env content tr0 = (Inr None, tr0)"
  by (simp add: check_paste_link_def)

lemma check_paste_link_response:
  assumes "PASTE_REGEX_search content = Some m"
    and "parse_qs env (urlparse_query m) (lit ''id'') = Some (k # ks)"
    and "http_get env (raw_paste_endpoint env k) = Response status (Text body)"
  shows "check_paste_link env content tr0 =
           (Inr (if status = 200 then Some body else None),
            tr0 @ [Call_http_get (raw_paste_endpoint env k)])"
  using assms by (simp add: check_paste_link_def)

lemma check_paste_link_other_status:
  assumes "PASTE_REGEX_search content = Some m"
    and "parse_qs env (urlparse_query m) (lit ''id'') = Some (k # ks)"
    and "http_get env (raw_paste_endpoint env k) = Response status payload"
    and "status \<noteq> 200"
  shows "check_paste_link env content tr0 =
           (Inr None, tr0 @ [Call_http_get (raw_paste_endpoint env k)])"
  using assms by (simp add: check_paste_link_def)

lemma check_paste_link_unreadable:
  assumes "PASTE_REGEX_search content = Some m"
    and "parse_qs env (urlparse_query m) (lit ''id'') = Some (k # ks)"
    and "http_get env (raw_paste_endpoint env k) = Response 200 Unreadable"
  shows "check_paste_link env content tr0 =
           (Inl Body_error, tr0 @ [Call_http_get (raw_paste_endpoint env k)])"
  using assms by (simp add: check_paste_link_def)

lemma check_paste_link_failure:
  assumes "PASTE_REGEX_search content = Some m"
    and "parse_qs env (urlparse_query m) (lit ''id'') = Some (k # ks)"
    and "http_get env (raw_paste_endpoint env k) = Client_failure"
  shows "check_paste_link env content tr0 =
           (Inl Client_error, tr0 @ [Call_http_get (raw_paste_endpoint env k)])"
  using assms by (simp add: check_paste_link_def)

lemma parse_code_raises:
  "check_paste_link env content tr0 = (Inl e, tr1) \<Longrightarrow>
   parse_code env content rf cp tr0 = (Inl e, tr1)"
  by (simp add: parse_code_def)

lemma parse_code_paste:
  assumes "check_paste_link env content tr0 = (Inr (Some body), tr1)" and "body \<noteq> []"
  shows "parse_code env content rf cp tr0 =
           (Inr (if length body \<le> MAX_LEN then (True, Some body, Some True)
                 else (False, None, None)), tr1)"
  using assms by (simp add: parse_code_def)

lemma parse_code_inline:
  assumes "check_paste_link env content tr0 = (Inr fetched, tr1)" and "\<not> truthy fetched"
  shows "parse_code env content rf cp tr0 =
           (Inr (if is_eligible (fst (get_code env content rf cp tr1)) MAX_LEN
                 then (True, fst (get_code env content rf cp tr1), Some False)
                 else (False, None, None)),
            snd (get_code env content rf cp tr1))"
  using assms
  by (auto simp: parse_code_def is_eligible_def Let_def split: prod.splits option.splits)


subsection \<open>Worked examples\<close>

text \<open>
  The messages used in the examples: one with a paste link and an \<open>id\<close> field, and plain
  text. The first lemma after the link is the specification's third example (status 200
  and the body \<open>x = 1\<close>).
\<close>

lemma paste_link_abcd:
  "PASTE_REGEX_search (lit ''https://paste.disnake.dev/?id=abcd'') =
     Some (lit ''https://paste.disnake.dev/?id=abcd'')"
  "parse_qs env (urlparse_query (lit ''https://paste.disnake.dev/?id=abcd'')) (lit ''id'') =
     Some [lit ''abcd'']"
  by (simp_all add: eval_pattern eval_query)

lemma ex_paste_abcd:
  "parse_code (example_env http_paste_abcd) (lit ''https://paste.disnake.dev/?id=abcd'')
     False False [] =
   (Inr (True, Some (lit ''x = 1''), Some True), [Call_http_get (example_endpoint (lit ''abcd''))])"
  by (simp add: parse_code_def check_paste_link_def eval_pattern eval_query eval_env MAX_LEN_def)

lemma ex_plain_message:
  "get_code (example_env http_not_found) (lit ''print(1)'') False False [] =
     (Some (lit ''print(1)''),
      [Call_get_code (lit ''print(1)'') False False, Call_prepare_input (lit ''print(1)'') False])"
  by (simp add: get_code_def eval_extract eval_pattern eval_env)

lemma ex_link_message:
  "get_code (example_env http) (lit ''https://paste.disnake.dev/?id=abcd'') False False tr =
     (Some (lit ''https://paste.disnake.dev/?id=abcd''),
      tr @ [Call_get_code (lit ''https://paste.disnake.dev/?id=abcd'') False False,
            Call_prepare_input (lit ''https://paste.disnake.dev/?id=abcd'') False])"
  by (simp add: get_code_def eval_extract eval_pattern eval_env)

lemma no_paste_link_falls_back_helper:
  assumes "\<not> contains_paste_url content"
  shows "parse_code env content rf cp tr0 =
           (Inr (if is_eligible (fst (get_code env content rf cp tr0)) MAX_LEN
                 then (True, fst (get_code env content rf cp tr0), Some False)
                 else (False, None, None)),
            snd (get_code env content rf cp tr0))"
proof -
  from assms have "PASTE_REGEX_search content = None"
    by (simp add: search_None_iff)
  then have "check_paste_link env content tr0 = (Inr None, tr0)"
    by (rule check_paste_link_no_match)
  from parse_code_inline [OF this, of rf cp] show ?thesis by simp
qed

section \<open>The claims\<close>

text \<open>
  Claim C3: whenever \<open>parse_code\<close> returns a success outcome, the returned code is a
  string, it is not empty, and its length is at most 20,000 characters.
\<close>

theorem accepted_code_is_bounded:
  "fst (parse_code env content rf cp tr0) = Inr (True, code, is_paste) \<Longrightarrow>
   \<exists>c. code = Some c \<and> c \<noteq> [] \<and> length c \<le> 20000"
  by (cases "check_paste_link env content tr0")
     (auto simp: parse_code_def MAX_LEN_def Let_def
           split: sum.splits prod.splits option.splits if_splits)

theorem accepted_code_is_bounded_witness:
  "fst (parse_code (example_env http_paste_abcd) (lit ''https://paste.disnake.dev/?id=abcd'')
          False False []) = Inr (True, Some (lit ''x = 1''), Some True) \<and>
   lit ''x = 1'' \<noteq> [] \<and> length (lit ''x = 1'') \<le> 20000"
proof -
  have h: "fst (parse_code (example_env http_paste_abcd)
                  (lit ''https://paste.disnake.dev/?id=abcd'') False False []) =
           Inr (True, Some (lit ''x = 1''), Some True)"
    by (simp add: ex_paste_abcd)
  from accepted_code_is_bounded [OF h] show ?thesis using h by simp
qed

text \<open>
  Claim C10: when \<open>check_is_python\<close> is true but the Code Block cog is not registered, the
  language check is skipped without notice: \<open>get_code\<close> returns the extracted code, and
  the classifier is never called (the calls made are the entry of \<open>get_code\<close> and
  \<open>prepare_input\<close> only).
\<close>

theorem missing_codeblock_cog_skips_check:
  assumes "codeblock env = None"
    and "snekbox env = Some extract"
    and "extract content rf = Some code"
    and "code \<noteq> []"
  shows "get_code env content rf True tr0 =
           (Some code, tr0 @ [Call_get_code content rf True, Call_prepare_input content rf])"
  using assms by (simp add: get_code_def)

theorem missing_codeblock_cog_skips_check_witness:
  "codeblock (env_without_codeblock http_not_found) = None \<and>
   snekbox (env_without_codeblock http_not_found) = Some prepare_input \<and>
   prepare_input (lit ''print(1)'') False = Some (lit ''print(1)'') \<and>
   lit ''print(1)'' \<noteq> [] \<and>
   get_code (env_without_codeblock http_not_found) (lit ''print(1)'') False True [] =
     (Some (lit ''print(1)''),
      [Call_get_code (lit ''print(1)'') False True, Call_prepare_input (lit ''print(1)'') False])"
proof -
  have a: "codeblock (env_without_codeblock http_not_found) = None"
    and b: "snekbox (env_without_codeblock http_not_found) = Some prepare_input"
    by (simp_all add: env_without_codeblock_def)
  have c: "prepare_input (lit ''print(1)'') False = Some (lit ''print(1)'')"
    by (simp add: eval_extract eval_pattern)
  have d: "lit ''print(1)'' \<noteq> []"
    by (simp add: lit_def)
  have e: "get_code (env_without_codeblock http_not_found) (lit ''print(1)'') False True [] =
     (Some (lit ''print(1)''),
      [Call_get_code (lit ''print(1)'') False True, Call_prepare_input (lit ''print(1)'') False])"
    using missing_codeblock_cog_skips_check
            [of "env_without_codeblock http_not_found" prepare_input "lit ''print(1)''" False
                "lit ''print(1)''" "[]"] a b c d
    by simp
  from a b c d e show ?thesis by blast
qed

text \<open>
  Claim C9, as stated, fails: without the Snekbox cog, a message whose paste link has no
  \<open>id\<close> field, and a message whose paste link cannot be fetched because the request fails,
  are not rejected. In both the paste fetch yields no body, and \<open>parse_code\<close> raises
  instead of returning a rejection.
\<close>

theorem missing_snekbox_cog_raises_counterexample:
  "snekbox (env_without_snekbox http_unreachable) = None \<and>
   parse_code (env_without_snekbox http_unreachable) (lit ''see paste.disnake.dev/abc'')
     False False [] = (Inl (KeyError (lit ''id'')), []) \<and>
   parse_code (env_without_snekbox http_unreachable) (lit ''https://paste.disnake.dev/?id=abcd'')
     False False [] = (Inl Client_error, [Call_http_get (example_endpoint (lit ''abcd''))])"
proof -
  let ?env = "env_without_snekbox http_unreachable"
  let ?msg = "lit ''https://paste.disnake.dev/?id=abcd''"
  have a: "snekbox ?env = None"
    by (simp add: env_without_snekbox_def)
  have b: "parse_code ?env (lit ''see paste.disnake.dev/abc'') False False [] =
             (Inl (KeyError (lit ''id'')), [])"
    by (simp add: parse_code_def check_paste_link_def eval_pattern eval_query)
  have h: "http_get ?env (raw_paste_endpoint ?env (lit ''abcd'')) = Client_failure"
    and r: "raw_paste_endpoint ?env = example_endpoint"
    by (simp_all add: env_without_snekbox_def http_unreachable_def)
  have "check_paste_link ?env ?msg [] =
          (Inl Client_error, [Call_http_get (example_endpoint (lit ''abcd''))])"
    using check_paste_link_failure [of ?msg ?msg ?env "lit ''abcd''" "[]" "[]"]
          paste_link_abcd(1) paste_link_abcd(2) [of ?env] h
    by (simp add: r)
  then have c: "parse_code ?env ?msg False False [] =
          (Inl Client_error, [Call_http_get (example_endpoint (lit ''abcd''))])"
    by (rule parse_code_raises)
  from a b c show ?thesis by blast
qed

text \<open>
  Claim C9, amended: if the Snekbox cog is not registered, \<open>get_code\<close> returns nothing for
  every input, so \<open>parse_code\<close> rejects every message for which \<open>check_paste_link\<close> returns
  without a non-empty body (no paste link, a status other than 200, or an empty body),
  whatever the message holds; an exception that leaves \<open>check_paste_link\<close> leaves
  \<open>parse_code\<close> too.
\<close>

theorem missing_snekbox_cog_rejects:
  assumes "snekbox env = None"
  shows "fst (get_code env content rf cp tr) = None \<and>
         (fst (check_paste_link env content tr0) = Inr fetched \<and> \<not> truthy fetched \<longrightarrow>
            fst (parse_code env content rf cp tr0) = Inr (False, None, None)) \<and>
         (fst (check_paste_link env content tr0) = Inl e \<longrightarrow>
            fst (parse_code env content rf cp tr0) = Inl e)"
proof -
  have g: "\<And>t. get_code env content rf cp t = (None, t @ [Call_get_code content rf cp])"
    using assms by (rule get_code_without_snekbox)
  show ?thesis
  proof (intro conjI impI)
    show "fst (get_code env content rf cp tr) = None" by (simp add: g)
  next
    assume a: "fst (check_paste_link env content tr0) = Inr fetched \<and> \<not> truthy fetched"
    obtain tr1 where "check_paste_link env content tr0 = (Inr fetched, tr1)"
      using a by (cases "check_paste_link env content tr0") auto
    from parse_code_inline [OF this] a
    show "fst (parse_code env content rf cp tr0) = Inr (False, None, None)"
      by (simp add: g is_eligible_def)
  next
    assume a: "fst (check_paste_link env content tr0) = Inl e"
    obtain tr1 where "check_paste_link env content tr0 = (Inl e, tr1)"
      using a by (cases "check_paste_link env content tr0") auto
    from parse_code_raises [OF this, of rf cp]
    show "fst (parse_code env content rf cp tr0) = Inl e" by simp
  qed
qed

theorem missing_snekbox_cog_rejects_witness:
  "snekbox (env_without_snekbox http_not_found) = None \<and>
   fst (get_code (env_without_snekbox http_not_found) (lit ''print(1)'') False False []) = None \<and>
   fst (check_paste_link (env_without_snekbox http_not_found) (lit ''print(1)'') []) = Inr None \<and>
   \<not> truthy None \<and>
   fst (parse_code (env_without_snekbox http_not_found) (lit ''print(1)'') False False []) =
     Inr (False, None, None) \<and>
   fst (check_paste_link (env_without_snekbox http_not_found)
          (lit ''see paste.disnake.dev/abc'') []) = Inl (KeyError (lit ''id'')) \<and>
   fst (parse_code (env_without_snekbox http_not_found) (lit ''see paste.disnake.dev/abc'')
          False False []) = Inl (KeyError (lit ''id''))"
proof -
  let ?env = "env_without_snekbox http_not_found"
  have a: "snekbox ?env = None"
    by (simp add: env_without_snekbox_def)
  have b: "fst (check_paste_link ?env (lit ''print(1)'') []) = Inr None"
    by (simp add: check_paste_link_def eval_pattern)
  have c: "\<not> truthy None" by simp
  have d: "fst (check_paste_link ?env (lit ''see paste.disnake.dev/abc'') []) =
             Inl (KeyError (lit ''id''))"
    by (simp add: check_paste_link_def eval_pattern eval_query)
  from missing_snekbox_cog_rejects
         [OF a, of "lit ''print(1)''" False False "[]" "[]" None "KeyError (lit ''id'')"]
       missing_snekbox_cog_rejects
         [OF a, of "lit ''see paste.disnake.dev/abc''" False False "[]" "[]" None
             "KeyError (lit ''id'')"]
       a b c d
  show ?thesis by blast
qed

text \<open>
  Claim C6: for every message with no substring matching the paste link pattern,
  \<open>check_paste_link\<close> returns nothing, without an error and without any call, and
  \<open>parse_code\<close> then falls back to inline extraction: it calls \<open>get_code\<close> on the message
  with the given \<open>require_fenced\<close> and \<open>check_is_python\<close> flags and decides on its result.
\<close>

theorem no_paste_link_falls_back_to_get_code:
  assumes "\<not> contains_paste_url content"
  shows "check_paste_link env content tr0 = (Inr None, tr0) \<and>
         parse_code env content rf cp tr0 =
           (Inr (if is_eligible (fst (get_code env content rf cp tr0)) MAX_LEN
                 then (True, fst (get_code env content rf cp tr0), Some False)
                 else (False, None, None)),
            snd (get_code env content rf cp tr0)) \<and>
         (\<exists>cs. snd (parse_code env content rf cp tr0) = tr0 @ Call_get_code content rf cp # cs)"
proof -
  from assms have "PASTE_REGEX_search content = None"
    by (simp add: search_None_iff)
  then have c: "check_paste_link env content tr0 = (Inr None, tr0)"
    by (rule check_paste_link_no_match)
  have p: "parse_code env content rf cp tr0 =
           (Inr (if is_eligible (fst (get_code env content rf cp tr0)) MAX_LEN
                 then (True, fst (get_code env content rf cp tr0), Some False)
                 else (False, None, None)),
            snd (get_code env content rf cp tr0))"
    using parse_code_inline [of env content tr0 None tr0 rf cp] c by simp
  from get_code_calls [of env content rf cp tr0]
  have "\<exists>cs. snd (parse_code env content rf cp tr0) = tr0 @ Call_get_code content rf cp # cs"
    by (simp add: p)
  with c p show ?thesis by blast
qed

theorem no_paste_link_falls_back_to_get_code_witness:
  "\<not> contains_paste_url (lit ''print(1)'') \<and>
   check_paste_link (example_env http_not_found) (lit ''print(1)'') [] = (Inr None, []) \<and>
   parse_code (example_env http_not_found) (lit ''print(1)'') False False [] =
     (Inr (True, Some (lit ''print(1)''), Some False),
      [Call_get_code (lit ''print(1)'') False False, Call_prepare_input (lit ''print(1)'') False])"
proof -
  have a: "\<not> contains_paste_url (lit ''print(1)'')"
    unfolding search_None_iff [symmetric] by (simp add: eval_pattern)
  have e: "is_eligible (Some (lit ''print(1)'')) MAX_LEN"
    by (simp add: is_eligible_def MAX_LEN_def lit_def)
  from no_paste_link_falls_back_to_get_code
         [of "lit ''print(1)''" "example_env http_not_found" "[]" False False] a e
  show ?thesis by (simp add: ex_plain_message)
qed

text \<open>
  Claim C8: when the paste fetch succeeds with status 200 but the body is empty,
  \<open>parse_code\<close> treats it as no paste resolved: after the fetch it calls \<open>get_code\<close> on
  the original message, decides on that result, and an accepted outcome has \<open>is_paste\<close>
  false.
\<close>

theorem empty_paste_body_falls_back:
  assumes "PASTE_REGEX_search content = Some m"
    and "parse_qs env (urlparse_query m) (lit ''id'') = Some (k # ks)"
    and "http_get env (raw_paste_endpoint env k) = Response 200 (Text [])"
  shows "parse_code env content rf cp tr0 =
           (let fetch = Call_http_get (raw_paste_endpoint env k);
                inline = get_code env content rf cp (tr0 @ [fetch])
            in (Inr (if is_eligible (fst inline) MAX_LEN
                     then (True, fst inline, Some False)
                     else (False, None, None)),
                snd inline)) \<and>
         (\<exists>cs. snd (parse_code env content rf cp tr0) =
                 tr0 @ Call_http_get (raw_paste_endpoint env k) # Call_get_code content rf cp # cs)"
proof -
  let ?tr1 = "tr0 @ [Call_http_get (raw_paste_endpoint env k)]"
  have c: "check_paste_link env content tr0 = (Inr (Some []), ?tr1)"
    using check_paste_link_response [OF assms, of tr0] by simp
  have p: "parse_code env content rf cp tr0 =
           (Inr (if is_eligible (fst (get_code env content rf cp ?tr1)) MAX_LEN
                 then (True, fst (get_code env content rf cp ?tr1), Some False)
                 else (False, None, None)),
            snd (get_code env content rf cp ?tr1))"
    using parse_code_inline [of env content tr0 "Some []" ?tr1 rf cp] c by simp
  from get_code_calls [of env content rf cp ?tr1]
  have "\<exists>cs. snd (parse_code env content rf cp tr0) =
                 tr0 @ Call_http_get (raw_paste_endpoint env k) # Call_get_code content rf cp # cs"
    by (simp add: p)
  with p show ?thesis by (simp add: Let_def)
qed

theorem empty_paste_body_falls_back_witness:
  "PASTE_REGEX_search (lit ''https://paste.disnake.dev/?id=abcd'') =
     Some (lit ''https://paste.disnake.dev/?id=abcd'') \<and>
   parse_qs (example_env http_empty_body)
     (urlparse_query (lit ''https://paste.disnake.dev/?id=abcd'')) (lit ''id'') =
     Some [lit ''abcd''] \<and>
   http_get (example_env http_empty_body)
     (raw_paste_endpoint (example_env http_empty_body) (lit ''abcd'')) = Response 200 (Text []) \<and>
   parse_code (example_env http_empty_body) (lit ''https://paste.disnake.dev/?id=abcd'')
     False False [] =
     (Inr (True, Some (lit ''https://paste.disnake.dev/?id=abcd''), Some False),
      [Call_http_get (example_endpoint (lit ''abcd'')),
       Call_get_code (lit ''https://paste.disnake.dev/?id=abcd'') False False,
       Call_prepare_input (lit ''https://paste.disnake.dev/?id=abcd'') False])"
proof -
  let ?env = "example_env http_empty_body"
  let ?msg = "lit ''https://paste.disnake.dev/?id=abcd''"
  have h: "http_get ?env (raw_paste_endpoint ?env (lit ''abcd'')) = Response 200 (Text [])"
    and r: "raw_paste_endpoint ?env = example_endpoint"
    by (simp_all add: example_env_def http_empty_body_def)
  have e: "is_eligible (Some ?msg) MAX_LEN"
    by (simp add: is_eligible_def MAX_LEN_def lit_def)
  from empty_paste_body_falls_back
         [of ?msg ?msg ?env "lit ''abcd''" "[]" False False "[]"]
       paste_link_abcd(1) paste_link_abcd(2) [of ?env] h
  have "parse_code ?env ?msg False False [] =
     (Inr (True, Some ?msg, Some False),
      [Call_http_get (example_endpoint (lit ''abcd'')),
       Call_get_code ?msg False False, Call_prepare_input ?msg False])"
    by (simp add: Let_def ex_link_message e r)
  with paste_link_abcd(1) paste_link_abcd(2) [of ?env] h show ?thesis by blast
qed

text \<open>
  Claim C4: the eligibility decision of \<open>parse_code\<close> is exactly the specification's
  filter applied to the candidate code with the maximum 20,000, whatever the origin of the
  candidate (the fetched paste if it is non-empty, the result of \<open>get_code\<close> otherwise):
  the outcome is a rejection when the candidate is absent, empty or longer than 20,000
  characters, and an acceptance of the candidate otherwise. In particular a candidate of
  exactly 20,000 characters is eligible.
\<close>

theorem eligibility_decision:
  assumes "check_paste_link env content tr0 = (Inr fetched, tr1)"
  shows "fst (parse_code env content rf cp tr0) =
           (let candidate = (if truthy fetched then fetched
                             else fst (get_code env content rf cp tr1))
            in Inr (if is_eligible candidate 20000
                    then (True, candidate, Some (truthy fetched))
                    else (False, None, None))) \<and>
         (length c = 20000 \<longrightarrow> is_eligible (Some c) 20000)"
proof -
  have "length c = 20000 \<longrightarrow> is_eligible (Some c) 20000"
    by (auto simp: is_eligible_def)
  moreover have "fst (parse_code env content rf cp tr0) =
           (let candidate = (if truthy fetched then fetched
                             else fst (get_code env content rf cp tr1))
            in Inr (if is_eligible candidate 20000
                    then (True, candidate, Some (truthy fetched))
                    else (False, None, None)))"
  proof (cases "truthy fetched")
    case True
    then obtain body where b: "fetched = Some body" "body \<noteq> []"
      by (cases fetched) auto
    from parse_code_paste [of env content tr0 body tr1 rf cp] assms b True
    show ?thesis by (simp add: Let_def is_eligible_def MAX_LEN_def)
  next
    case False
    from parse_code_inline [OF assms False, of rf cp] False
    show ?thesis by (simp add: Let_def MAX_LEN_def)
  qed
  ultimately show ?thesis by blast
qed

theorem eligibility_decision_witness:
  "check_paste_link (example_env http_long_paste) (lit ''https://paste.disnake.dev/?id=abcd'') [] =
     (Inr (Some (replicate 20000 120)), [Call_http_get (example_endpoint (lit ''abcd''))]) \<and>
   length (replicate 20000 (120::nat)) = 20000 \<and>
   is_eligible (Some (replicate 20000 120)) 20000 \<and>
   fst (parse_code (example_env http_long_paste) (lit ''https://paste.disnake.dev/?id=abcd'')
          False False []) = Inr (True, Some (replicate 20000 120), Some True)"
proof -
  let ?env = "example_env http_long_paste"
  let ?msg = "lit ''https://paste.disnake.dev/?id=abcd''"
  have h: "http_get ?env (raw_paste_endpoint ?env (lit ''abcd'')) =
             Response 200 (Text (replicate 20000 120))"
    and r: "raw_paste_endpoint ?env = example_endpoint"
    by (simp_all add: example_env_def http_long_paste_def)
  have c: "check_paste_link ?env ?msg [] =
             (Inr (Some (replicate 20000 120)), [Call_http_get (example_endpoint (lit ''abcd''))])"
    using check_paste_link_response
            [of ?msg ?msg ?env "lit ''abcd''" "[]" 200 "replicate 20000 120" "[]"]
          paste_link_abcd(1) paste_link_abcd(2) [of ?env] h
    by (simp add: r)
  have l: "length (replicate 20000 (120::nat)) = 20000" by simp
  from eligibility_decision [OF c, of False False "replicate 20000 120"] l
  have "is_eligible (Some (replicate 20000 120)) 20000"
    and "fst (parse_code ?env ?msg False False []) =
           Inr (True, Some (replicate 20000 120), Some True)"
    by (simp_all add: Let_def)
  with c l show ?thesis by blast
qed

text \<open>
  Claim C5: for every message with no fenced code block and no paste link, \<open>parse_code\<close>
  with \<open>require_fenced\<close> true returns a rejection, whether the Snekbox cog is missing or is
  the Inline Extractor of the specification. The message \<open>no code here\<close> is such a message.
\<close>

theorem require_fenced_rejects_unfenced_message:
  assumes "\<not> contains_paste_url content"
    and "fenced_region content = None"
    and "snekbox env = None \<or> snekbox env = Some prepare_input"
  shows "fst (parse_code env content True cp tr0) = Inr (False, None, None)"
proof -
  from assms(1) have "PASTE_REGEX_search content = None"
    by (simp add: search_None_iff)
  then have c: "check_paste_link env content tr0 = (Inr None, tr0)"
    by (rule check_paste_link_no_match)
  from assms(2) have "prepare_input content True = None"
    by (simp add: prepare_input_def)
  with assms(3) have "fst (get_code env content True cp tr0) = None"
    by (auto simp: get_code_def)
  with parse_code_inline [of env content tr0 None tr0 True cp] c
  show ?thesis by (simp add: is_eligible_def)
qed

theorem require_fenced_rejects_unfenced_message_witness:
  "\<not> contains_paste_url (lit ''no code here'') \<and>
   fenced_region (lit ''no code here'') = None \<and>
   snekbox (example_env http_not_found) = Some prepare_input \<and>
   fst (parse_code (example_env http_not_found) (lit ''no code here'') True False []) =
     Inr (False, None, None)"
proof -
  have a: "\<not> contains_paste_url (lit ''no code here'')"
    unfolding search_None_iff [symmetric] by (simp add: eval_pattern)
  have b: "fenced_region (lit ''no code here'') = None"
    by (simp add: eval_extract eval_pattern)
  have c: "snekbox (example_env http_not_found) = Some prepare_input"
    by (simp add: example_env_def)
  from require_fenced_rejects_unfenced_message
         [of "lit ''no code here''" "example_env http_not_found" False "[]"] a b c
  show ?thesis by blast
qed

text \<open>
  Claim C1, as stated, fails: the message below contains a paste link, its fetch returns
  status 404, and \<open>parse_code\<close> then calls \<open>get_code\<close> on the message and accepts the
  inline result instead of rejecting.
\<close>

theorem failed_fetch_falls_back_counterexample:
  "contains_paste_url (lit ''https://paste.disnake.dev/?id=abcd'') \<and>
   http_get (example_env http_not_found) (example_endpoint (lit ''abcd'')) =
     Response 404 (Text (lit ''Not Found'')) \<and>
   parse_code (example_env http_not_found) (lit ''https://paste.disnake.dev/?id=abcd'')
     False False [] =
     (Inr (True, Some (lit ''https://paste.disnake.dev/?id=abcd''), Some False),
      [Call_http_get (example_endpoint (lit ''abcd'')),
       Call_get_code (lit ''https://paste.disnake.dev/?id=abcd'') False False,
       Call_prepare_input (lit ''https://paste.disnake.dev/?id=abcd'') False])"
proof -
  let ?env = "example_env http_not_found"
  let ?msg = "lit ''https://paste.disnake.dev/?id=abcd''"
  have a: "contains_paste_url ?msg"
    using search_None_iff [of ?msg] by (simp add: paste_link_abcd(1))
  have h: "http_get ?env (example_endpoint (lit ''abcd'')) = Response 404 (Text (lit ''Not Found''))"
    and r: "raw_paste_endpoint ?env = example_endpoint"
    by (simp_all add: example_env_def http_not_found_def)
  have c: "check_paste_link ?env ?msg [] =
             (Inr None, [Call_http_get (example_endpoint (lit ''abcd''))])"
    using check_paste_link_response
            [of ?msg ?msg ?env "lit ''abcd''" "[]" 404 "lit ''Not Found''" "[]"]
          paste_link_abcd(1) paste_link_abcd(2) [of ?env] h
    by (simp add: r)
  have e: "is_eligible (Some ?msg) MAX_LEN"
    by (simp add: is_eligible_def MAX_LEN_def lit_def)
  have "parse_code ?env ?msg False False [] =
     (Inr (True, Some ?msg, Some False),
      [Call_http_get (example_endpoint (lit ''abcd'')),
       Call_get_code ?msg False False, Call_prepare_input ?msg False])"
    using parse_code_inline [of ?env ?msg "[]" None _ False False] c
    by (simp add: ex_link_message e)
  with a h show ?thesis by blast
qed

text \<open>
  Claim C1, amended: for every message with a paste link whose fetch returns status 200 and
  a non-empty body text, \<open>parse_code\<close> never consults \<open>get_code\<close>: the fetch is its only call
  and the outcome is decided on the fetched body. When the fetch returns another status,
  \<open>parse_code\<close> falls back to \<open>get_code\<close> on the message and decides on the inline result.
\<close>

theorem paste_link_resolution:
  assumes "PASTE_REGEX_search content = Some m"
    and "parse_qs env (urlparse_query m) (lit ''id'') = Some (k # ks)"
    and "http_get env (raw_paste_endpoint env k) = Response status payload"
  shows "(status = 200 \<and> payload = Text body \<and> body \<noteq> [] \<longrightarrow>
            parse_code env content rf cp tr0 =
              (Inr (if length body \<le> 20000 then (True, Some body, Some True)
                    else (False, None, None)),
               tr0 @ [Call_http_get (raw_paste_endpoint env k)])) \<and>
         (status \<noteq> 200 \<longrightarrow>
            parse_code env content rf cp tr0 =
              (let inline = get_code env content rf cp
                              (tr0 @ [Call_http_get (raw_paste_endpoint env k)])
               in (Inr (if is_eligible (fst inline) 20000
                        then (True, fst inline, Some False)
                        else (False, None, None)),
                   snd inline)))"
proof -
  let ?tr1 = "tr0 @ [Call_http_get (raw_paste_endpoint env k)]"
  show ?thesis
  proof (intro conjI impI)
    assume a: "status = 200 \<and> payload = Text body \<and> body \<noteq> []"
    with assms have "check_paste_link env content tr0 = (Inr (Some body), ?tr1)"
      using check_paste_link_response [of content m env k ks 200 body tr0] by simp
    with parse_code_paste [of env content tr0 body ?tr1 rf cp] a
    show "parse_code env content rf cp tr0 =
              (Inr (if length body \<le> 20000 then (True, Some body, Some True)
                    else (False, None, None)), ?tr1)"
      by (simp add: MAX_LEN_def)
  next
    assume "status \<noteq> 200"
    with assms have "check_paste_link env content tr0 = (Inr None, ?tr1)"
      by (intro check_paste_link_other_status)
    with parse_code_inline [of env content tr0 None ?tr1 rf cp]
    show "parse_code env content rf cp tr0 =
              (let inline = get_code env content rf cp ?tr1
               in (Inr (if is_eligible (fst inline) 20000
                        then (True, fst inline, Some False)
                        else (False, None, None)),
                   snd inline))"
      by (simp add: MAX_LEN_def Let_def)
  qed
qed

theorem paste_link_resolution_witness:
  "PASTE_REGEX_search (lit ''https://paste.disnake.dev/?id=abcd'') =
     Some (lit ''https://paste.disnake.dev/?id=abcd'') \<and>
   parse_qs (example_env http_paste_abcd)
     (urlparse_query (lit ''https://paste.disnake.dev/?id=abcd'')) (lit ''id'') =
     Some [lit ''abcd''] \<and>
   http_get (example_env http_paste_abcd)
     (raw_paste_endpoint (example_env http_paste_abcd) (lit ''abcd'')) =
     Response 200 (Text (lit ''x = 1'')) \<and>
   lit ''x = 1'' \<noteq> [] \<and>
   parse_code (example_env http_paste_abcd) (lit ''https://paste.disnake.dev/?id=abcd'')
     True True [] =
     (Inr (True, Some (lit ''x = 1''), Some True),
      [Call_http_get (raw_paste_endpoint (example_env http_paste_abcd) (lit ''abcd''))]) \<and>
   http_get (example_env http_not_found)
     (raw_paste_endpoint (example_env http_not_found) (lit ''abcd'')) =
     Response 404 (Text (lit ''Not Found'')) \<and>
   parse_code (example_env http_not_found) (lit ''https://paste.disnake.dev/?id=abcd'')
     False False [] =
     (Inr (True, Some (lit ''https://paste.disnake.dev/?id=abcd''), Some False),
      [Call_http_get (raw_paste_endpoint (example_env http_not_found) (lit ''abcd'')),
       Call_get_code (lit ''https://paste.disnake.dev/?id=abcd'') False False,
       Call_prepare_input (lit ''https://paste.disnake.dev/?id=abcd'') False])"
proof -
  let ?env = "example_env http_paste_abcd"
  let ?env' = "example_env http_not_found"
  let ?msg = "lit ''https://paste.disnake.dev/?id=abcd''"
  have h: "http_get ?env (raw_paste_endpoint ?env (lit ''abcd'')) = Response 200 (Text (lit ''x = 1''))"
    by (simp add: example_env_def http_paste_abcd_def)
  have h': "http_get ?env' (raw_paste_endpoint ?env' (lit ''abcd'')) =
              Response 404 (Text (lit ''Not Found''))"
    by (simp add: example_env_def http_not_found_def)
  have n: "lit ''x = 1'' \<noteq> []" and l: "length (lit ''x = 1'') \<le> 20000"
    by (simp_all add: lit_def)
  have e: "is_eligible (Some ?msg) 20000"
    by (simp add: is_eligible_def lit_def)
  from paste_link_resolution
         [of ?msg ?msg ?env "lit ''abcd''" "[]" 200 "Text (lit ''x = 1'')" "lit ''x = 1''"
             True True "[]"]
       paste_link_abcd(1) paste_link_abcd(2) [of ?env] h n l
  have p: "parse_code ?env ?msg True True [] =
     (Inr (True, Some (lit ''x = 1''), Some True),
      [Call_http_get (raw_paste_endpoint ?env (lit ''abcd''))])"
    by simp
  from paste_link_resolution
         [of ?msg ?msg ?env' "lit ''abcd''" "[]" 404 "Text (lit ''Not Found'')" _ False False "[]"]
       paste_link_abcd(1) paste_link_abcd(2) [of ?env'] h'
  have p': "parse_code ?env' ?msg False False [] =
     (Inr (True, Some ?msg, Some False),
      [Call_http_get (raw_paste_endpoint ?env' (lit ''abcd'')),
       Call_get_code ?msg False False, Call_prepare_input ?msg False])"
    by (simp add: Let_def ex_link_message e)
  from paste_link_abcd(1) paste_link_abcd(2) [of ?env] h n p h' p' show ?thesis by blast
qed

text \<open>
  Claim C2, as stated, fails: a paste link without an \<open>id\<close> field in its query makes
  \<open>query_strings["id"]\<close> raise \<open>KeyError\<close>, which leaves \<open>check_paste_link\<close> and
  \<open>parse_code\<close> uncaught, before any call is made.
\<close>

theorem link_without_id_raises_counterexample:
  "parse_code (example_env http_not_found) (lit ''see paste.disnake.dev/abc'') False False [] =
     (Inl (KeyError (lit ''id'')), [])"
  by (simp add: parse_code_def check_paste_link_def eval_pattern eval_query)

text \<open>
  Claim C2, amended: \<open>parse_code\<close> returns a structured result, raising nothing, when the
  message holds no paste link, and when the matched link has an \<open>id\<close> field in its query
  and the request is answered either with a status other than 200, which is turned into "no
  paste resolved" (\<open>check_paste_link\<close> returns nothing, the body is not read), or with
  status 200 and a body whose text \<open>resp.text()\<close> returns. A failure raised by the HTTP
  client, in the request or in reading the body of a 200 response, is not swallowed: it
  leaves \<open>parse_code\<close> as an exception.
\<close>

theorem parse_code_returns_when_fetch_answers:
  "(\<not> contains_paste_url content \<longrightarrow>
      (\<exists>r. fst (parse_code env content rf cp tr0) = Inr r)) \<and>
   (PASTE_REGEX_search content = Some m \<and>
    parse_qs env (urlparse_query m) (lit ''id'') = Some (k # ks) \<longrightarrow>
      (case http_get env (raw_paste_endpoint env k) of
         Client_failure \<Rightarrow> fst (parse_code env content rf cp tr0) = Inl Client_error
       | Response status payload \<Rightarrow>
           if status \<noteq> 200
           then fst (check_paste_link env content tr0) = Inr None \<and>
                (\<exists>r. fst (parse_code env content rf cp tr0) = Inr r)
           else (case payload of
                   Text body \<Rightarrow> (\<exists>r. fst (parse_code env content rf cp tr0) = Inr r)
                 | Unreadable \<Rightarrow> fst (parse_code env content rf cp tr0) = Inl Body_error)))"
proof (intro conjI impI)
  assume "\<not> contains_paste_url content"
  then have "PASTE_REGEX_search content = None"
    by (simp add: search_None_iff)
  then have "check_paste_link env content tr0 = (Inr None, tr0)"
    by (rule check_paste_link_no_match)
  from parse_code_inline [OF this, of rf cp]
  show "\<exists>r. fst (parse_code env content rf cp tr0) = Inr r" by auto
next
  let ?tr1 = "tr0 @ [Call_http_get (raw_paste_endpoint env k)]"
  assume a: "PASTE_REGEX_search content = Some m \<and>
             parse_qs env (urlparse_query m) (lit ''id'') = Some (k # ks)"
  have returns: "\<exists>r. fst (parse_code env content rf cp tr0) = Inr r"
    if c: "check_paste_link env content tr0 = (Inr fetched, ?tr1)" for fetched
  proof (cases "truthy fetched")
    case True
    then obtain body where "fetched = Some body" "body \<noteq> []"
      by (cases fetched) auto
    with c parse_code_paste [of env content tr0 body ?tr1 rf cp] show ?thesis by auto
  next
    case False
    from parse_code_inline [OF c False, of rf cp] show ?thesis by auto
  qed
  show "case http_get env (raw_paste_endpoint env k) of
         Client_failure \<Rightarrow> fst (parse_code env content rf cp tr0) = Inl Client_error
       | Response status payload \<Rightarrow>
           if status \<noteq> 200
           then fst (check_paste_link env content tr0) = Inr None \<and>
                (\<exists>r. fst (parse_code env content rf cp tr0) = Inr r)
           else (case payload of
                   Text body \<Rightarrow> (\<exists>r. fst (parse_code env content rf cp tr0) = Inr r)
                 | Unreadable \<Rightarrow> fst (parse_code env content rf cp tr0) = Inl Body_error)"
  proof (cases "http_get env (raw_paste_endpoint env k)")
    case Client_failure
    with a have "check_paste_link env content tr0 = (Inl Client_error, ?tr1)"
      by (intro check_paste_link_failure) auto
    from parse_code_raises [OF this, of rf cp] Client_failure show ?thesis by simp
  next
    case (Response status payload)
    show ?thesis
    proof (cases "status = 200")
      case False
      with a Response have c: "check_paste_link env content tr0 = (Inr None, ?tr1)"
        by (intro check_paste_link_other_status) auto
      with returns [OF c] Response False show ?thesis by simp
    next
      case True
      show ?thesis
      proof (cases payload)
        case (Text body)
        with a Response True have "check_paste_link env content tr0 = (Inr (Some body), ?tr1)"
          using check_paste_link_response [of content m env k ks 200 body tr0] by simp
        from returns [OF this] Response True Text show ?thesis by simp
      next
        case Unreadable
        with a Response True have "check_paste_link env content tr0 = (Inl Body_error, ?tr1)"
          by (intro check_paste_link_unreadable) auto
        from parse_code_raises [OF this, of rf cp] Response True Unreadable
        show ?thesis by simp
      qed
    qed
  qed
qed

theorem parse_code_returns_when_fetch_answers_witness:
  "\<not> contains_paste_url (lit ''print(1)'') \<and>
   fst (parse_code (example_env http_not_found) (lit ''print(1)'') False False []) =
     Inr (True, Some (lit ''print(1)''), Some False) \<and>
   PASTE_REGEX_search (lit ''https://paste.disnake.dev/?id=abcd'') =
     Some (lit ''https://paste.disnake.dev/?id=abcd'') \<and>
   parse_qs (example_env http_not_found)
     (urlparse_query (lit ''https://paste.disnake.dev/?id=abcd'')) (lit ''id'') =
     Some [lit ''abcd''] \<and>
   http_get (example_env http_not_found)
     (raw_paste_endpoint (example_env http_not_found) (lit ''abcd'')) =
     Response 404 (Text (lit ''Not Found'')) \<and>
   fst (check_paste_link (example_env http_not_found)
          (lit ''https://paste.disnake.dev/?id=abcd'') []) = Inr None \<and>
   http_get (example_env http_unreachable)
     (raw_paste_endpoint (example_env http_unreachable) (lit ''abcd'')) = Client_failure \<and>
   fst (parse_code (example_env http_unreachable) (lit ''https://paste.disnake.dev/?id=abcd'')
          False False []) = Inl Client_error \<and>
   http_get (example_env http_unreadable_body)
     (raw_paste_endpoint (example_env http_unreadable_body) (lit ''abcd'')) =
     Response 200 Unreadable \<and>
   fst (parse_code (example_env http_unreadable_body)
          (lit ''https://paste.disnake.dev/?id=abcd'') False False []) = Inl Body_error"
proof -
  let ?env = "example_env http_not_found"
  let ?env' = "example_env http_unreachable"
  let ?env'' = "example_env http_unreadable_body"
  let ?msg = "lit ''https://paste.disnake.dev/?id=abcd''"
  have a: "\<not> contains_paste_url (lit ''print(1)'')"
    unfolding search_None_iff [symmetric] by (simp add: eval_pattern)
  have h: "http_get ?env (raw_paste_endpoint ?env (lit ''abcd'')) =
             Response 404 (Text (lit ''Not Found''))"
    by (simp add: example_env_def http_not_found_def)
  have h': "http_get ?env' (raw_paste_endpoint ?env' (lit ''abcd'')) = Client_failure"
    by (simp add: example_env_def http_unreachable_def)
  have h'': "http_get ?env'' (raw_paste_endpoint ?env'' (lit ''abcd'')) = Response 200 Unreadable"
    by (simp add: example_env_def http_unreadable_body_def)
  have e: "is_eligible (Some (lit ''print(1)'')) MAX_LEN"
    by (simp add: is_eligible_def MAX_LEN_def lit_def)
  have p: "fst (parse_code ?env (lit ''print(1)'') False False []) =
             Inr (True, Some (lit ''print(1)''), Some False)"
    using no_paste_link_falls_back_helper [OF a, of ?env False False "[]"]
    by (simp add: ex_plain_message e)
  from parse_code_returns_when_fetch_answers
         [of ?msg ?env False False "[]" ?msg "lit ''abcd''" "[]"]
       paste_link_abcd(1) paste_link_abcd(2) [of ?env] h
  have c: "fst (check_paste_link ?env ?msg []) = Inr None"
    by simp
  from parse_code_returns_when_fetch_answers
         [of ?msg ?env' False False "[]" ?msg "lit ''abcd''" "[]"]
       paste_link_abcd(1) paste_link_abcd(2) [of ?env'] h'
  have f: "fst (parse_code ?env' ?msg False False []) = Inl Client_error"
    by simp
  from parse_code_returns_when_fetch_answers
         [of ?msg ?env'' False False "[]" ?msg "lit ''abcd''" "[]"]
       paste_link_abcd(1) paste_link_abcd(2) [of ?env''] h''
  have g: "fst (parse_code ?env'' ?msg False False []) = Inl Body_error"
    by simp
  from a p paste_link_abcd(1) paste_link_abcd(2) [of ?env] h c h' f h'' g
  show ?thesis by blast
qed

subsection \<open>Two invocations in a changing world\<close>





lemma stable_env_of: "stable W \<Longrightarrow> env_of W (effect W c w) = env_of W w"
  by (simp add: stable_def)




text \<open>
  Without stability the two invocations can differ: the paste below is served once, so the
  first invocation accepts the fetched body and the second, finding status 404 and no
  fenced block, rejects.
\<close>

lemma expiring_paste_first_run:
  "parse_code_in expiring_paste (lit ''https://paste.disnake.dev/?id=abcd'') True False 0 =
     (Inr (True, Some (lit ''x = 1''), Some True), 1)"
  by (simp add: parse_code_in_def check_paste_link_in_def expiring_paste_def
        eval_pattern eval_query eval_env MAX_LEN_def)

lemma expiring_paste_second_run:
  "parse_code_in expiring_paste (lit ''https://paste.disnake.dev/?id=abcd'') True False 1 =
     (Inr (False, None, None), 2)"
  by (simp add: parse_code_in_def check_paste_link_in_def get_code_in_def expiring_paste_def
        eval_pattern eval_query eval_env eval_extract)

lemma expiring_paste_not_stable: "\<not> stable expiring_paste"
proof
  assume "stable expiring_paste"
  then have "env_of expiring_paste (effect expiring_paste (Call_http_get []) 0) =
             env_of expiring_paste 0"
    by (rule stable_env_of)
  then have "http_get (example_env http_not_found) (example_endpoint (lit ''abcd'')) =
             http_get (example_env http_paste_abcd) (example_endpoint (lit ''abcd''))"
    by (simp add: expiring_paste_def)
  then show False
    by (simp add: example_env_def http_not_found_def http_paste_abcd_def)
qed



end
